theory Spec2Isabelle
  imports Complex_Main "HOL-Library.Log_Nat"
begin

section \<open>Python values handled by WeatherDataIngestor.py\<close>

text \<open>
  The handler works on the values that \<^verbatim>\<open>json.loads\<close> produces: \<^verbatim>\<open>None\<close>, booleans,
  unbounded integers, floats, strings, lists and dictionaries with string keys. A Python
  \<^verbatim>\<open>str\<close> is represented by its UTF-8 bytes and a \<^verbatim>\<open>bytes\<close> object by its bytes, both as
  \<^typ>\<open>string\<close>. A dictionary is an association list in insertion order; a lookup takes
  the first pair with the key.

  A Python float is an IEEE 754 binary64 value. A finite one is represented by the
  rational number it denotes; the negative zero, the infinities and NaN are constructors
  of their own. \<open>Finite 0\<close> is the positive zero.
\<close>

datatype pyfloat = Finite rat | NegZero | PosInf | NegInf | NaN

datatype json =
    JNull
  | JBool bool
  | JInt int
  | JFloat pyfloat
  | JStr string
  | JArr "json list"
  | JObj "(string \<times> json) list"

type_synonym pydict = "(string \<times> json) list"

text \<open>
  Exceptions are values: the class and the text that \<^verbatim>\<open>str(e)\<close> gives. \<open>LibraryError\<close>
  stands for the exception classes of the collaborators (boto3, urllib3), all of them
  subclasses of \<^verbatim>\<open>Exception\<close>. The wording of the messages the interpreter itself
  produces is that of CPython 3.11 and 3.12.
\<close>

datatype exn_class =
    KeyError | IndexError | TypeError | AttributeError | ValueError | OverflowError
  | OSError | UnicodeDecodeError | JSONDecodeError | LibraryError

datatype pyexn = Exn exn_class string

fun exn_class_of :: "pyexn \<Rightarrow> exn_class" where
  "exn_class_of (Exn c m) = c"

fun exn_str :: "pyexn \<Rightarrow> string" where
  "exn_str (Exn c m) = m"

definition quote :: "string \<Rightarrow> string" where
  "quote s = CHR 0x27 # s @ [CHR 0x27]"

definition key_error :: "string \<Rightarrow> pyexn" where
  "key_error k = Exn KeyError (quote k)"

fun type_name :: "json \<Rightarrow> string" where
  "type_name JNull = ''NoneType''"
| "type_name (JBool b) = ''bool''"
| "type_name (JInt i) = ''int''"
| "type_name (JFloat f) = ''float''"
| "type_name (JStr s) = ''str''"
| "type_name (JArr xs) = ''list''"
| "type_name (JObj d) = ''dict''"

text \<open>Truth value of an object, as \<^verbatim>\<open>not x\<close> and \<^verbatim>\<open>x or y\<close> test it.\<close>

fun truthy :: "json \<Rightarrow> bool" where
  "truthy JNull = False"
| "truthy (JBool b) = b"
| "truthy (JInt i) = (i \<noteq> 0)"
| "truthy (JFloat f) = (f \<noteq> Finite 0 \<and> f \<noteq> NegZero)"
| "truthy (JStr s) = (s \<noteq> [])"
| "truthy (JArr xs) = (xs \<noteq> [])"
| "truthy (JObj d) = (d \<noteq> [])"

text \<open>\<^verbatim>\<open>a or b\<close>: the first operand when it is true, the second otherwise.\<close>

definition py_or :: "json \<Rightarrow> json \<Rightarrow> json" where
  "py_or a b = (if truthy a then a else b)"

subsection \<open>Subscripts, membership and \<^verbatim>\<open>dict.get\<close>\<close>

text \<open>\<^verbatim>\<open>obj[key]\<close> for a string key.\<close>

definition subscript :: "json \<Rightarrow> string \<Rightarrow> pyexn + json" where
  "subscript v k =
     (case v of
        JObj d \<Rightarrow> (case map_of d k of Some x \<Rightarrow> Inr x | None \<Rightarrow> Inl (key_error k))
      | JArr xs \<Rightarrow> Inl (Exn TypeError ''list indices must be integers or slices, not str'')
      | JStr s \<Rightarrow> Inl (Exn TypeError (''string indices must be integers, not '' @ quote ''str''))
      | _ \<Rightarrow> Inl (Exn TypeError (quote (type_name v) @ '' object is not subscriptable'')))"

text \<open>Number of bytes of the first code point of a UTF-8 string, from its lead byte.\<close>

definition utf8_width :: "char \<Rightarrow> nat" where
  "utf8_width c =
     (let b = (of_char c :: nat) in
      if b < 0x80 then 1 else if b < 0xE0 then 2 else if b < 0xF0 then 3 else 4)"

text \<open>\<^verbatim>\<open>obj[0]\<close>. The keys of a dictionary from JSON are strings, so \<^verbatim>\<open>0\<close> is never one.\<close>

definition subscript0 :: "json \<Rightarrow> pyexn + json" where
  "subscript0 v =
     (case v of
        JArr xs \<Rightarrow>
          (case xs of [] \<Rightarrow> Inl (Exn IndexError ''list index out of range'') | x # _ \<Rightarrow> Inr x)
      | JStr s \<Rightarrow>
          (case s of
             [] \<Rightarrow> Inl (Exn IndexError ''string index out of range'')
           | c # _ \<Rightarrow> Inr (JStr (take (utf8_width c) s)))
      | JObj d \<Rightarrow> Inl (Exn KeyError ''0'')
      | _ \<Rightarrow> Inl (Exn TypeError (quote (type_name v) @ '' object is not subscriptable'')))"

definition is_substring :: "string \<Rightarrow> string \<Rightarrow> bool" where
  "is_substring k s = list_ex (\<lambda>n. take (length k) (drop n s) = k) [0..<Suc (length s)]"

text \<open>\<^verbatim>\<open>key in obj\<close> for a string key.\<close>

definition py_in :: "string \<Rightarrow> json \<Rightarrow> pyexn + bool" where
  "py_in k v =
     (case v of
        JObj d \<Rightarrow> Inr (map_of d k \<noteq> None)
      | JArr xs \<Rightarrow> Inr (JStr k \<in> set xs)
      | JStr s \<Rightarrow> Inr (is_substring k s)
      | _ \<Rightarrow> Inl (Exn TypeError (''argument of type '' @ quote (type_name v) @ '' is not iterable'')))"

text \<open>\<^verbatim>\<open>obj.get(key)\<close>: only a dictionary has the method; a missing key gives \<^verbatim>\<open>None\<close>.\<close>

definition get_method :: "json \<Rightarrow> string \<Rightarrow> pyexn + json" where
  "get_method v k =
     (case v of
        JObj d \<Rightarrow> Inr (case map_of d k of Some x \<Rightarrow> x | None \<Rightarrow> JNull)
      | _ \<Rightarrow> Inl (Exn AttributeError
                 (quote (type_name v) @ '' object has no attribute '' @ quote ''get'')))"

text \<open>\<^verbatim>\<open>d.update(e)\<close>: a key of \<open>d\<close> keeps its place, a new key goes to the end.\<close>

fun dict_set :: "pydict \<Rightarrow> string \<Rightarrow> json \<Rightarrow> pydict" where
  "dict_set [] k v = [(k, v)]"
| "dict_set ((k', v') # d) k v = (if k' = k then (k, v) # d else (k', v') # dict_set d k v)"

fun dict_update :: "pydict \<Rightarrow> pydict \<Rightarrow> pydict" where
  "dict_update d [] = d"
| "dict_update d ((k, v) # e) = dict_update (dict_set d k v) e"

definition dict_keys :: "pydict \<Rightarrow> string set" where
  "dict_keys d = fst ` set d"

subsection \<open>Decimal numerals\<close>

definition digit :: "nat \<Rightarrow> char" where
  "digit n = ''0123456789'' ! n"

fun dec :: "nat \<Rightarrow> string" where
  "dec n = (if n < 10 then [digit n] else dec (n div 10) @ [digit (n mod 10)])"

declare dec.simps [simp del]

definition show_int :: "int \<Rightarrow> string" where
  "show_int i = (if i < 0 then CHR ''-'' # dec (nat (- i)) else dec (nat i))"

section \<open>Floating-point arithmetic\<close>

definition pow2 :: "int \<Rightarrow> rat" where
  "pow2 e = (if 0 \<le> e then 2 ^ nat e else 1 / 2 ^ nat (- e))"

text \<open>The nearest integer, a tie going to the even one.\<close>

definition round_half_even :: "rat \<Rightarrow> int" where
  "round_half_even q =
     (let f = \<lfloor>q\<rfloor>; d = q - of_int f in
      if d < 1 / 2 then f
      else if 1 / 2 < d then f + 1
      else if even f then f else f + 1)"

text \<open>For \<open>0 < q\<close>, the exponent \<open>e\<close> with \<open>2\<^sup>e \<le> q < 2\<^sup>e\<^sup>+\<^sup>1\<close>.\<close>

definition floor_log2 :: "rat \<Rightarrow> int" where
  "floor_log2 q = (if 1 \<le> q then bitlen \<lfloor>q\<rfloor> - 1 else - bitlen (\<lceil>1 / q\<rceil> - 1))"

text \<open>
  The binary64 value nearest to a rational number (round to nearest, ties to even):
  53 significant bits, the least exponent of the last bit being \<open>-1074\<close> (subnormal
  numbers), and an infinity from \<open>2\<^sup>1\<^sup>0\<^sup>2\<^sup>4\<close> on. This is how a float literal of the program
  text is read, how an integer becomes a float and how an arithmetic result is rounded.
\<close>

definition to_double :: "rat \<Rightarrow> pyfloat" where
  "to_double q =
     (if q = 0 then Finite 0
      else
        let a = \<bar>q\<bar>;
            e = max (floor_log2 a - 52) (- 1074);
            m = round_half_even (a / pow2 e);
            v = of_int m * pow2 e
        in if 2 ^ 1024 \<le> v then (if q < 0 then NegInf else PosInf)
           else if m = 0 then (if q < 0 then NegZero else Finite 0)
           else Finite (if q < 0 then - v else v))"

text \<open>\<^verbatim>\<open>float(i)\<close> as the operators apply it to an integer operand.\<close>

definition int_to_float :: "int \<Rightarrow> pyexn + pyfloat" where
  "int_to_float i =
     (case to_double (of_int i) of
        PosInf \<Rightarrow> Inl (Exn OverflowError ''int too large to convert to float'')
      | NegInf \<Rightarrow> Inl (Exn OverflowError ''int too large to convert to float'')
      | f \<Rightarrow> Inr f)"

fun fneg :: "pyfloat \<Rightarrow> pyfloat" where
  "fneg (Finite q) = (if q = 0 then NegZero else Finite (- q))"
| "fneg NegZero = Finite 0"
| "fneg PosInf = NegInf"
| "fneg NegInf = PosInf"
| "fneg NaN = NaN"

text \<open>\<^verbatim>\<open>x - y\<close> on floats.\<close>

fun fsub :: "pyfloat \<Rightarrow> pyfloat \<Rightarrow> pyfloat" where
  "fsub NaN y = NaN"
| "fsub x NaN = NaN"
| "fsub PosInf PosInf = NaN"
| "fsub NegInf NegInf = NaN"
| "fsub PosInf y = PosInf"
| "fsub NegInf y = NegInf"
| "fsub x PosInf = NegInf"
| "fsub x NegInf = PosInf"
| "fsub NegZero NegZero = Finite 0"
| "fsub NegZero (Finite y) = (if y = 0 then NegZero else Finite (- y))"
| "fsub (Finite x) NegZero = Finite x"
| "fsub (Finite x) (Finite y) = (if x = y then Finite 0 else to_double (x - y))"

text \<open>
  \<^verbatim>\<open>round(x, ndigits)\<close> on a float, for the small \<open>ndigits\<close> the program uses: the decimal
  with \<open>ndigits\<close> digits after the point nearest to the exact value of \<open>x\<close> (a tie going
  to the even digit), read back as a float; the sign of \<open>x\<close> is kept. Infinities and NaN
  round to themselves.
\<close>

definition py_round :: "pyfloat \<Rightarrow> nat \<Rightarrow> pyfloat" where
  "py_round x nd =
     (case x of
        Finite q \<Rightarrow>
          (let s = round_half_even (q * 10 ^ nd) in
           if s = 0 \<and> q < 0 then NegZero else to_double (of_int s / 10 ^ nd))
      | _ \<Rightarrow> x)"

section \<open>The Weather Transformer\<close>

text \<open>The literal \<^verbatim>\<open>273.15\<close> of the program text.\<close>

definition c273_15 :: pyfloat where
  "c273_15 = to_double (27315 / 100)"

text \<open>
  \<^verbatim>\<open>def kelvin_to_celsius(kelvin): return round(kelvin - 273.15, 2)\<close>

  An integer or boolean operand is converted to a float first; any other operand that
  is not a float has no subtraction with a float.
\<close>

definition kelvin_to_celsius :: "json \<Rightarrow> pyexn + json" where
  "kelvin_to_celsius kelvin =
     (case kelvin of
        JFloat f \<Rightarrow> Inr (JFloat (py_round (fsub f c273_15) 2))
      | JInt i \<Rightarrow>
          (case int_to_float i of
             Inl e \<Rightarrow> Inl e
           | Inr f \<Rightarrow> Inr (JFloat (py_round (fsub f c273_15) 2)))
      | JBool b \<Rightarrow>
          (case int_to_float (if b then 1 else 0) of
             Inl e \<Rightarrow> Inl e
           | Inr f \<Rightarrow> Inr (JFloat (py_round (fsub f c273_15) 2)))
      | _ \<Rightarrow> Inl (Exn TypeError (''unsupported operand type(s) for -: ''
                   @ quote (type_name kelvin) @ '' and '' @ quote ''float'')))"

subsection \<open>Sequencing of steps that may raise\<close>

definition bind :: "pyexn + 'a \<Rightarrow> ('a \<Rightarrow> pyexn + 'b) \<Rightarrow> pyexn + 'b" where
  "bind m f = (case m of Inl e \<Rightarrow> Inl e | Inr x \<Rightarrow> f x)"

subsection \<open>\<^verbatim>\<open>datetime.utcfromtimestamp(...).strftime('%Y-%m-%d %H:%M:%S UTC')\<close>\<close>

record datetime =
  dt_year :: int
  dt_month :: int
  dt_day :: int
  dt_hour :: int
  dt_minute :: int
  dt_second :: int

text \<open>Days before the first of a month, and days of a month, in a year that is not leap.\<close>

definition days_before_month :: "int \<Rightarrow> int" where
  "days_before_month m = [0, 0, 31, 59, 90, 120, 151, 181, 212, 243, 273, 304, 334] ! nat m"

definition days_in_month :: "int \<Rightarrow> int" where
  "days_in_month m = [0, 31, 28, 31, 30, 31, 30, 31, 31, 30, 31, 30, 31] ! nat m"

text \<open>
  Month and day of the day number \<open>n\<close> (from 0) of a year, as the \<^verbatim>\<open>datetime\<close> module
  finds them: an estimate of the month, corrected when it is one too far.
\<close>

definition month_day :: "bool \<Rightarrow> int \<Rightarrow> int \<times> int" where
  "month_day leapyear n =
     (let m = (n + 50) div 32;
          preceding = days_before_month m + (if 2 < m \<and> leapyear then 1 else 0)
      in if n < preceding
         then (m - 1,
               n - (preceding - (days_in_month (m - 1) + (if m - 1 = 2 \<and> leapyear then 1 else 0))) + 1)
         else (m, n - preceding + 1))"

text \<open>
  Year, month and day of a proleptic Gregorian ordinal (1 is 0001-01-01), by cycles of
  400, 100, 4 and 1 years.
\<close>

definition ord2ymd :: "int \<Rightarrow> int \<times> int \<times> int" where
  "ord2ymd n =
     (let n0 = n - 1;
          n400 = n0 div 146097; r1 = n0 mod 146097;
          n100 = r1 div 36524; r2 = r1 mod 36524;
          n4 = r2 div 1461; r3 = r2 mod 1461;
          n1 = r3 div 365; r4 = r3 mod 365;
          y = n400 * 400 + 1 + n100 * 100 + n4 * 4 + n1
      in if n1 = 4 \<or> n100 = 4 then (y - 1, 12, 31)
         else (case month_day (n1 = 3 \<and> (n4 \<noteq> 24 \<or> n100 = 3)) r4 of (m, d) \<Rightarrow> (y, m, d)))"

text \<open>The UTC calendar fields of a number of seconds since 1970-01-01 00:00:00.\<close>

definition gmtime :: "int \<Rightarrow> datetime" where
  "gmtime t =
     (let r = t mod 86400 in
      case ord2ymd (t div 86400 + 719163) of
        (y, m, d) \<Rightarrow>
          \<lparr>dt_year = y, dt_month = m, dt_day = d,
           dt_hour = r div 3600, dt_minute = r mod 3600 div 60, dt_second = r mod 60\<rparr>)"

text \<open>
  The platform's \<^verbatim>\<open>gmtime\<close> fails when the year does not fit its 32-bit field; the
  \<^verbatim>\<open>datetime\<close> constructor accepts the years 1 to 9999.
\<close>

definition datetime_from_seconds :: "int \<Rightarrow> pyexn + datetime" where
  "datetime_from_seconds t =
     (let dt = gmtime t in
      if dt_year dt - 1900 < - (2 ^ 31) \<or> 2 ^ 31 \<le> dt_year dt - 1900
      then Inl (Exn OSError ''[Errno 75] Value too large for defined data type'')
      else if dt_year dt < 1 \<or> 9999 < dt_year dt
      then Inl (Exn ValueError (''year '' @ show_int (dt_year dt) @ '' is out of range''))
      else Inr dt)"

definition time_t_overflow :: pyexn where
  "time_t_overflow = Exn OverflowError ''timestamp out of range for platform time_t''"

text \<open>
  The whole seconds of a float timestamp: the fraction is rounded to microseconds (half
  to even) and a carry or a borrow goes to the integral part.
\<close>

definition float_seconds :: "pyfloat \<Rightarrow> pyexn + int" where
  "float_seconds f =
     (case f of
        NaN \<Rightarrow> Inl (Exn ValueError ''Invalid value NaN (not a number)'')
      | PosInf \<Rightarrow> Inl time_t_overflow
      | NegInf \<Rightarrow> Inl time_t_overflow
      | NegZero \<Rightarrow> Inr 0
      | Finite q \<Rightarrow>
          (let ip = (if 0 \<le> q then \<lfloor>q\<rfloor> else \<lceil>q\<rceil>);
               us = round_half_even
                      (case to_double ((q - of_int ip) * 1000000) of Finite v \<Rightarrow> v | _ \<Rightarrow> 0);
               sec = (if 1000000 \<le> us then ip + 1 else if us < 0 then ip - 1 else ip)
           in if sec < - (2 ^ 63) \<or> 2 ^ 63 \<le> sec then Inl time_t_overflow else Inr sec))"

definition utcfromtimestamp :: "json \<Rightarrow> pyexn + datetime" where
  "utcfromtimestamp v =
     (case v of
        JInt t \<Rightarrow>
          if t < - (2 ^ 63) \<or> 2 ^ 63 \<le> t then Inl time_t_overflow else datetime_from_seconds t
      | JBool b \<Rightarrow> datetime_from_seconds (if b then 1 else 0)
      | JFloat f \<Rightarrow> bind (float_seconds f) datetime_from_seconds
      | _ \<Rightarrow> Inl (Exn TypeError
                 (quote (type_name v) @ '' object cannot be interpreted as an integer'')))"

definition pad2 :: "int \<Rightarrow> string" where
  "pad2 n = (if n < 10 then CHR ''0'' # show_int n else show_int n)"

text \<open>
  The format \<^verbatim>\<open>'%Y-%m-%d %H:%M:%S UTC'\<close>. On the C library of the Lambda runtime
  \<^verbatim>\<open>%Y\<close> is the year in decimal without padding; the other fields take two digits.
\<close>

definition strftime_utc :: "datetime \<Rightarrow> string" where
  "strftime_utc dt =
     show_int (dt_year dt) @ ''-'' @ pad2 (dt_month dt) @ ''-'' @ pad2 (dt_day dt) @ '' ''
     @ pad2 (dt_hour dt) @ '':'' @ pad2 (dt_minute dt) @ '':'' @ pad2 (dt_second dt) @ '' UTC''"

definition format_timestamp :: "json \<Rightarrow> pyexn + json" where
  "format_timestamp v = bind (utcfromtimestamp v) (\<lambda>dt. Inr (JStr (strftime_utc dt)))"

subsection \<open>\<^verbatim>\<open>transform_weather_data\<close>\<close>

text \<open>\<^verbatim>\<open>data['main'][k]\<close>, and the dictionary display of lines 70 to 77, its values in order.\<close>

definition main_item :: "json \<Rightarrow> string \<Rightarrow> pyexn + json" where
  "main_item data k = bind (subscript data ''main'') (\<lambda>m. subscript m k)"

definition main_fields :: "json \<Rightarrow> pyexn + pydict" where
  "main_fields data =
     bind (bind (main_item data ''temp'') kelvin_to_celsius) (\<lambda>temperature.
     bind (bind (main_item data ''feels_like'') kelvin_to_celsius) (\<lambda>feels_like.
     bind (bind (main_item data ''temp_min'') kelvin_to_celsius) (\<lambda>temp_min.
     bind (bind (main_item data ''temp_max'') kelvin_to_celsius) (\<lambda>temp_max.
     bind (main_item data ''humidity'') (\<lambda>humidity.
     bind (main_item data ''pressure'') (\<lambda>pressure.
     Inr [(''temperature_celsius'', temperature),
          (''feels_like_celsius'', feels_like),
          (''temp_min_celsius'', temp_min),
          (''temp_max_celsius'', temp_max),
          (''humidity_percent'', humidity),
          (''pressure_hpa'', pressure)]))))))"

text \<open>The dictionary display of lines 81 to 84.\<close>

definition wind_fields :: "json \<Rightarrow> pyexn + pydict" where
  "wind_fields data =
     bind (bind (subscript data ''wind'') (\<lambda>w. get_method w ''speed'')) (\<lambda>speed.
     bind (bind (subscript data ''wind'') (\<lambda>w. get_method w ''deg'')) (\<lambda>deg.
     Inr [(''wind_speed_ms'', speed), (''wind_direction_degrees'', deg)]))"

text \<open>
  The condition of line 87,
  \<^verbatim>\<open>'sys' in data and 'sunrise' in data['sys'] and 'sunset' in data['sys']\<close>,
  evaluated from the left and stopping at the first false operand.
\<close>

definition has_sun_times :: "json \<Rightarrow> pyexn + bool" where
  "has_sun_times data =
     bind (py_in ''sys'' data) (\<lambda>a.
       if \<not> a then Inr False
       else bind (bind (subscript data ''sys'') (py_in ''sunrise'')) (\<lambda>b.
         if \<not> b then Inr False
         else bind (subscript data ''sys'') (py_in ''sunset'')))"

text \<open>The dictionary display of lines 88 to 91.\<close>

definition sun_fields :: "json \<Rightarrow> pyexn + pydict" where
  "sun_fields data =
     bind (bind (bind (subscript data ''sys'') (\<lambda>s. subscript s ''sunrise'')) format_timestamp)
       (\<lambda>sunrise.
     bind (bind (bind (subscript data ''sys'') (\<lambda>s. subscript s ''sunset'')) format_timestamp)
       (\<lambda>sunset.
     Inr [(''sunrise'', sunrise), (''sunset'', sunset)]))"

text \<open>
  \<^verbatim>\<open>transform_weather_data(data)\<close>. The first argument is the value of
  \<^verbatim>\<open>int(datetime.utcnow().timestamp())\<close> of lines 56 to 58, read from the clock.
\<close>

definition transform_weather_data :: "int \<Rightarrow> json \<Rightarrow> pyexn + pydict" where
  "transform_weather_data event_timestamp data =
     bind (subscript data ''name'') (\<lambda>city.
     bind (bind (subscript data ''sys'') (\<lambda>s. subscript s ''country'')) (\<lambda>country.
     bind (bind (bind (subscript data ''weather'') subscript0) (\<lambda>w. subscript w ''main''))
       (\<lambda>weather_condition.
     bind (bind (bind (subscript data ''weather'') subscript0) (\<lambda>w. subscript w ''description''))
       (\<lambda>weather_description.
     let transformed_data =
           [(''city'', city),
            (''country'', country),
            (''weather_condition'', weather_condition),
            (''weather_description'', weather_description),
            (''event_timestamp'', JInt event_timestamp)]
     in
     bind (py_in ''main'' data) (\<lambda>has_main.
     bind (if has_main
           then bind (main_fields data) (\<lambda>e. Inr (dict_update transformed_data e))
           else Inr transformed_data) (\<lambda>transformed_data.
     bind (py_in ''wind'' data) (\<lambda>has_wind.
     bind (if has_wind
           then bind (wind_fields data) (\<lambda>e. Inr (dict_update transformed_data e))
           else Inr transformed_data) (\<lambda>transformed_data.
     bind (has_sun_times data) (\<lambda>has_sun.
     if has_sun
     then bind (sun_fields data) (\<lambda>e. Inr (dict_update transformed_data e))
     else Inr transformed_data)))))))))"

section \<open>The collaborators\<close>

text \<open>
  Everything the handler reads from outside is a field of the record \<open>world\<close>: the
  process environment, the secret store, the weather provider, the delivery stream, the
  random generator and the clock, and the library functions whose text is not part of
  the repository (\<^verbatim>\<open>json.loads\<close>, \<^verbatim>\<open>json.dumps\<close>, \<^verbatim>\<open>repr\<close>, the wording of a
  decoding error). A call that raises returns \<open>Inl\<close>. Log records are not modelled;
  \<^verbatim>\<open>logger\<close> calls do not raise.
\<close>

record http_response =
  resp_status :: int
  resp_data :: string

record world =
  environ :: "string \<Rightarrow> string option"
  get_secret_value :: "string \<Rightarrow> pyexn + string option"
  http_request :: "string \<Rightarrow> pyexn + http_response"
  put_record :: "string \<Rightarrow> string \<Rightarrow> pyexn + pydict"
  random_draw :: nat
  clock :: int
  json_loads :: "string \<Rightarrow> pyexn + json"
  json_dumps :: "json \<Rightarrow> string"
  py_repr :: "json \<Rightarrow> string"
  codec_error_text :: "string \<Rightarrow> string"

text \<open>
  \<open>get_secret_value w name\<close> is the \<^verbatim>\<open>SecretString\<close> of the response, \<open>None\<close> when
  the response has none (a binary secret). \<open>random_draw\<close> is the number the generator
  draws, reduced to an index by \<^verbatim>\<open>random.choice\<close>. \<open>clock\<close> is
  \<^verbatim>\<open>int(datetime.utcnow().timestamp())\<close>.
\<close>

text \<open>The calls to the outside, in the order the handler makes them.\<close>

datatype call =
    SecretsGet string
  | HttpGet string
  | FirehosePut string string

definition is_http_get :: "call \<Rightarrow> bool" where
  "is_http_get c = (case c of HttpGet u \<Rightarrow> True | _ \<Rightarrow> False)"

definition is_firehose_put :: "call \<Rightarrow> bool" where
  "is_firehose_put c = (case c of FirehosePut s d \<Rightarrow> True | _ \<Rightarrow> False)"

subsection \<open>Text\<close>

definition is_cont :: "nat \<Rightarrow> bool" where
  "is_cont b = (0x80 \<le> b \<and> b \<le> 0xBF)"

text \<open>Well-formed UTF-8: no overlong form, no surrogate, nothing above U+10FFFF.\<close>

fun utf8_valid :: "nat list \<Rightarrow> bool" where
  "utf8_valid [] = True"
| "utf8_valid (b # bs) =
     (if b < 0x80 then utf8_valid bs
      else if 0xC2 \<le> b \<and> b \<le> 0xDF then
        (case bs of c1 # r \<Rightarrow> is_cont c1 \<and> utf8_valid r | _ \<Rightarrow> False)
      else if 0xE0 \<le> b \<and> b \<le> 0xEF then
        (case bs of
           c1 # c2 # r \<Rightarrow>
             is_cont c1 \<and> (if b = 0xE0 then 0xA0 \<le> c1 else True)
             \<and> (if b = 0xED then c1 < 0xA0 else True) \<and> is_cont c2 \<and> utf8_valid r
         | _ \<Rightarrow> False)
      else if 0xF0 \<le> b \<and> b \<le> 0xF4 then
        (case bs of
           c1 # c2 # c3 # r \<Rightarrow>
             is_cont c1 \<and> (if b = 0xF0 then 0x90 \<le> c1 else True)
             \<and> (if b = 0xF4 then c1 < 0x90 else True) \<and> is_cont c2 \<and> is_cont c3
             \<and> utf8_valid r
         | _ \<Rightarrow> False)
      else False)"

text \<open>\<^verbatim>\<open>b.decode('utf-8')\<close>\<close>

definition decode_utf8 :: "world \<Rightarrow> string \<Rightarrow> pyexn + string" where
  "decode_utf8 w b =
     (if utf8_valid (map of_char b) then Inr b
      else Inl (Exn UnicodeDecodeError (codec_error_text w b)))"

text \<open>\<^verbatim>\<open>str(x)\<close>, as a formatted string literal applies it to a value.\<close>

definition py_str :: "world \<Rightarrow> json \<Rightarrow> string" where
  "py_str w v =
     (case v of
        JStr s \<Rightarrow> s
      | JNull \<Rightarrow> ''None''
      | JBool b \<Rightarrow> (if b then ''True'' else ''False'')
      | JInt i \<Rightarrow> show_int i
      | _ \<Rightarrow> py_repr w v)"

section \<open>Configuration\<close>

definition environ_get :: "world \<Rightarrow> string \<Rightarrow> json" where
  "environ_get w k = (case environ w k of None \<Rightarrow> JNull | Some v \<Rightarrow> JStr v)"

definition DELIVERY_STREAM_NAME :: "world \<Rightarrow> string" where
  "DELIVERY_STREAM_NAME w =
     (case environ w ''DELIVERY_STREAM_NAME'' of None \<Rightarrow> ''weather-data-stream'' | Some v \<Rightarrow> v)"

definition SECRET_NAME :: "world \<Rightarrow> string option" where
  "SECRET_NAME w = environ w ''WEATHER_API_SECRET_NAME''"

definition DEFAULT_CITY :: "world \<Rightarrow> string" where
  "DEFAULT_CITY w = (case environ w ''DEFAULT_CITY'' of None \<Rightarrow> ''London'' | Some v \<Rightarrow> v)"

definition WEATHER_API_URL :: string where
  "WEATHER_API_URL = ''https://api.openweathermap.org/data/2.5/weather''"

definition RANDOM_CITIES :: "string list" where
  "RANDOM_CITIES =
     [''London'', ''New York'', ''Paris'', ''Berlin'', ''Tokyo'', ''Sydney'', ''Cairo'',
      ''Toronto'', ''Istanbul'']"

text \<open>\<^verbatim>\<open>random.choice(seq)\<close> on a list that is not empty.\<close>

definition random_choice :: "world \<Rightarrow> string list \<Rightarrow> string" where
  "random_choice w seq = seq ! (random_draw w mod length seq)"

section \<open>The Credential Resolver\<close>

text \<open>
  The body of the \<^verbatim>\<open>try\<close> statement of \<^verbatim>\<open>get_api_key\<close> (lines 30 to 43), with the calls
  it makes. \<^verbatim>\<open>not SECRET_NAME\<close> holds for an unset and for an empty name. The inner
  handler catches \<^verbatim>\<open>json.JSONDecodeError\<close> only.
\<close>

definition get_api_key_body :: "world \<Rightarrow> call list \<times> (pyexn + json)" where
  "get_api_key_body w =
     (case SECRET_NAME w of
        None \<Rightarrow> ([], Inr (environ_get w ''OpenWeatherMapApiKey''))
      | Some name \<Rightarrow>
          if name = [] then ([], Inr (environ_get w ''OpenWeatherMapApiKey''))
          else
            ([SecretsGet name],
             bind (get_secret_value w name) (\<lambda>response.
             bind (case response of
                     None \<Rightarrow> Inl (key_error ''SecretString'')
                   | Some secret \<Rightarrow> Inr secret) (\<lambda>secret.
             case json_loads w secret of
               Inl e \<Rightarrow> if exn_class_of e = JSONDecodeError then Inr (JStr secret) else Inl e
             | Inr secret_dict \<Rightarrow> get_method secret_dict ''OpenWeatherMapApiKey''))))"

text \<open>\<^verbatim>\<open>get_api_key()\<close>: the handler of line 45 catches every exception of the body.\<close>

definition get_api_key :: "world \<Rightarrow> call list \<times> (pyexn + json)" where
  "get_api_key w =
     (case get_api_key_body w of
        (cs, Inl e) \<Rightarrow> (cs, Inr (environ_get w ''OpenWeatherMapApiKey''))
      | (cs, Inr k) \<Rightarrow> (cs, Inr k))"

section \<open>The Ingestion Orchestrator\<close>

record response =
  statusCode :: int
  body :: string

text \<open>
  The trigger input \<^verbatim>\<open>event\<close> is a dictionary; \<^verbatim>\<open>context\<close> is not used. Line 101:
  \<^verbatim>\<open>city = event.get('city') or DEFAULT_CITY or random.choice(RANDOM_CITIES)\<close>
\<close>

definition target_city :: "world \<Rightarrow> pydict \<Rightarrow> json" where
  "target_city w event =
     py_or (py_or (case map_of event ''city'' of Some x \<Rightarrow> x | None \<Rightarrow> JNull)
                  (JStr (DEFAULT_CITY w)))
           (JStr (random_choice w RANDOM_CITIES))"

text \<open>Line 108: \<^verbatim>\<open>url = f"{WEATHER_API_URL}?q={city}&appid={api_key}"\<close>\<close>

definition request_url :: "world \<Rightarrow> json \<Rightarrow> json \<Rightarrow> string" where
  "request_url w city api_key =
     WEATHER_API_URL @ ''?q='' @ py_str w city @ ''&appid='' @ py_str w api_key"

definition no_api_key :: pyexn where
  "no_api_key =
     Exn ValueError
       ''No API key available. Set WEATHER_API_KEY environment variable or configure secret.''"

definition error_body :: "world \<Rightarrow> string \<Rightarrow> string" where
  "error_body w msg = json_dumps w (JObj [(''error'', JStr msg)])"

text \<open>Lines 112 to 117, the reply to a status other than 200.\<close>

definition error_reply :: "world \<Rightarrow> http_response \<Rightarrow> pyexn + response" where
  "error_reply w r =
     bind (decode_utf8 w (resp_data r)) (\<lambda>text.
     Inr \<lparr>statusCode = resp_status r,
          body = error_body w (''Weather API error: Status '' @ show_int (resp_status r)
                               @ '', Response: '' @ text)\<rparr>)"

text \<open>
  Lines 120 to 124: the record to send, a line of JSON. Its encoding to bytes (line 130)
  is the identity in this representation of text.
\<close>

definition prepare_record :: "world \<Rightarrow> http_response \<Rightarrow> pyexn + string" where
  "prepare_record w r =
     bind (decode_utf8 w (resp_data r)) (\<lambda>text.
     bind (json_loads w text) (\<lambda>weather_data.
     bind (transform_weather_data (clock w) weather_data) (\<lambda>transformed_data.
     Inr (json_dumps w (JObj transformed_data) @ [CHR 0x0A]))))"

text \<open>Lines 134 to 141.\<close>

definition success_reply :: "world \<Rightarrow> json \<Rightarrow> pydict \<Rightarrow> response" where
  "success_reply w city r =
     \<lparr>statusCode = 200,
      body = json_dumps w
               (JObj [(''message'', JStr ''Weather data successfully sent to Firehose''),
                      (''city'', city),
                      (''recordId'', case map_of r ''RecordId'' of Some x \<Rightarrow> x | None \<Rightarrow> JNull)])\<rparr>"

text \<open>The body of the \<^verbatim>\<open>try\<close> statement of \<^verbatim>\<open>lambda_handler\<close>, with the calls it makes.\<close>

definition lambda_handler_body :: "world \<Rightarrow> pydict \<Rightarrow> call list \<times> (pyexn + response)" where
  "lambda_handler_body w event =
     (case get_api_key w of
        (cs, Inl e) \<Rightarrow> (cs, Inl e)
      | (cs, Inr api_key) \<Rightarrow>
          let city = target_city w event in
          if \<not> truthy api_key then (cs, Inl no_api_key)
          else
            let url = request_url w city api_key in
            (case http_request w url of
               Inl e \<Rightarrow> (cs @ [HttpGet url], Inl e)
             | Inr resp \<Rightarrow>
                 if resp_status resp \<noteq> 200 then (cs @ [HttpGet url], error_reply w resp)
                 else
                   (case prepare_record w resp of
                      Inl e \<Rightarrow> (cs @ [HttpGet url], Inl e)
                    | Inr json_data \<Rightarrow>
                        (cs @ [HttpGet url, FirehosePut (DELIVERY_STREAM_NAME w) json_data],
                         bind (put_record w (DELIVERY_STREAM_NAME w) json_data)
                           (\<lambda>r. Inr (success_reply w city r))))))"

text \<open>
  \<^verbatim>\<open>lambda_handler(event, context)\<close>: the handler of line 143 turns every exception of
  the body into a reply with status 500.
\<close>

definition lambda_handler :: "world \<Rightarrow> pydict \<Rightarrow> call list \<times> response" where
  "lambda_handler w event =
     (case lambda_handler_body w event of
        (cs, Inl e) \<Rightarrow>
          (cs, \<lparr>statusCode = 500,
                body = error_body w (''Error processing weather data: '' @ exn_str e)\<rparr>)
      | (cs, Inr r) \<Rightarrow> (cs, r))"

section \<open>The normalized record\<close>

text \<open>The field names of the record, by group.\<close>

definition required_fields :: "string set" where
  "required_fields =
     {''city'', ''country'', ''weather_condition'', ''weather_description'', ''event_timestamp''}"

definition main_metric_fields :: "string set" where
  "main_metric_fields =
     {''temperature_celsius'', ''feels_like_celsius'', ''temp_min_celsius'',
      ''temp_max_celsius'', ''humidity_percent'', ''pressure_hpa''}"

definition wind_field_names :: "string set" where
  "wind_field_names = {''wind_speed_ms'', ''wind_direction_degrees''}"

definition sun_field_names :: "string set" where
  "sun_field_names = {''sunrise'', ''sunset''}"

text \<open>
  An observation with a wind section that has no speed, no main-metrics section and a
  sunrise without a sunset, and the record made from it at clock value 1700000123.
\<close>

definition obs_calm :: json where
  "obs_calm =
     JObj [(''name'', JStr ''Cairo''),
           (''sys'', JObj [(''country'', JStr ''EG''), (''sunrise'', JInt 1700000000)]),
           (''weather'', JArr [JObj [(''main'', JStr ''Clear''), (''description'', JStr ''clear sky'')]]),
           (''wind'', JObj [(''deg'', JInt 250)])]"

definition rec_calm :: pydict where
  "rec_calm =
     [(''city'', JStr ''Cairo''), (''country'', JStr ''EG''),
      (''weather_condition'', JStr ''Clear''), (''weather_description'', JStr ''clear sky''),
      (''event_timestamp'', JInt 1700000123),
      (''wind_speed_ms'', JNull), (''wind_direction_degrees'', JInt 250)]"

text \<open>The exception classes of a missing field: a missing key or an empty list.\<close>

definition missing_field :: "pyexn \<Rightarrow> bool" where
  "missing_field e = (exn_class_of e = KeyError \<or> exn_class_of e = IndexError)"

section \<open>Example inputs\<close>

text \<open>
  Concrete collaborators for the examples. \<open>toy_dumps\<close> stands in for \<^verbatim>\<open>json.dumps\<close>:
  it prints the first pair of an object whose first value is a string. In
  \<open>world_offline\<close> nothing is configured and every collaborator fails; the parser rejects
  every text. The other worlds change some fields of it: a provider that answers 404
  with a text, one that answers 404 with a byte that is not UTF-8, one that answers 200
  with an object without fields, a secret store that holds a raw key, and a
  \<^verbatim>\<open>DEFAULT_CITY\<close> set to the empty string.
\<close>

definition toy_dumps :: "json \<Rightarrow> string" where
  "toy_dumps v = (case v of JObj ((k, JStr s) # r) \<Rightarrow> k @ '': '' @ s | _ \<Rightarrow> ''{}'')"

definition world_offline :: world where
  "world_offline =
     \<lparr>environ = Map.empty,
      get_secret_value = (\<lambda>n. Inl (Exn LibraryError ''secret store unavailable'')),
      http_request = (\<lambda>u. Inl (Exn LibraryError ''no route to host'')),
      put_record = (\<lambda>s d. Inl (Exn LibraryError ''stream unavailable'')),
      random_draw = 4,
      clock = 1700000123,
      json_loads = (\<lambda>s. Inl (Exn JSONDecodeError ''Expecting value: line 1 column 1 (char 0)'')),
      json_dumps = toy_dumps,
      py_repr = (\<lambda>v. ''?''),
      codec_error_text = (\<lambda>b. ''invalid start byte'')\<rparr>"

definition world_404 :: world where
  "world_404 =
     world_offline
       \<lparr>environ := [''OpenWeatherMapApiKey'' \<mapsto> ''k1''],
        http_request := (\<lambda>u. Inr \<lparr>resp_status = 404, resp_data = ''city not found''\<rparr>)\<rparr>"

definition world_bad_bytes :: world where
  "world_bad_bytes =
     world_404\<lparr>http_request := (\<lambda>u. Inr \<lparr>resp_status = 404, resp_data = [CHR 0xFF]\<rparr>)\<rparr>"

definition world_malformed :: world where
  "world_malformed =
     world_404
       \<lparr>http_request := (\<lambda>u. Inr \<lparr>resp_status = 200, resp_data = ''{}''\<rparr>),
        json_loads := (\<lambda>s. if s = ''{}'' then Inr (JObj []) else
           Inl (Exn JSONDecodeError ''Expecting value: line 1 column 1 (char 0)''))\<rparr>"

definition world_secret :: world where
  "world_secret =
     world_offline
       \<lparr>environ := [''WEATHER_API_SECRET_NAME'' \<mapsto> ''prod/weather''],
        get_secret_value := (\<lambda>n. Inr (Some ''abc123''))\<rparr>"

definition world_random :: world where
  "world_random = world_offline\<lparr>environ := [''DEFAULT_CITY'' \<mapsto> []]\<rparr>"

text \<open>
  An observation with every section, its temperatures being the floats nearest to
  300.15 and to 273.15, and the record made from it at clock value 1700000123.
\<close>

definition kelvin_300_15 :: pyfloat where
  "kelvin_300_15 = to_double (30015 / 100)"



section \<open>Basic facts\<close>

lemma bind_Inr_iff: "bind m f = Inr y \<longleftrightarrow> (\<exists>x. m = Inr x \<and> f x = Inr y)"
  by (cases m) (simp_all add: bind_def)

lemma bind_Inl_iff: "bind m f = Inl e \<longleftrightarrow> m = Inl e \<or> (\<exists>x. m = Inr x \<and> f x = Inl e)"
  by (cases m) (simp_all add: bind_def)

lemma bind_Inr [simp]: "bind (Inr x) f = f x"
  by (simp add: bind_def)

lemma bind_Inl [simp]: "bind (Inl e) f = Inl e"
  by (simp add: bind_def)

lemma subscript_Inr_iff:
  "subscript v k = Inr x \<longleftrightarrow> (\<exists>d. v = JObj d \<and> map_of d k = Some x)"
  by (cases v) (auto simp: subscript_def split: option.splits)

lemma subscript_JObj:
  "subscript (JObj d) k = (case map_of d k of Some x \<Rightarrow> Inr x | None \<Rightarrow> Inl (key_error k))"
  by (simp add: subscript_def)

lemma py_in_JObj [simp]: "py_in k (JObj d) = Inr (k \<in> dict_keys d)"
  by (simp add: py_in_def dict_keys_def map_of_eq_None_iff)

lemma map_of_dict_set: "map_of (dict_set d k v) k' = (if k' = k then Some v else map_of d k')"
  by (induction d) auto

lemma dict_keys_Nil [simp]: "dict_keys [] = {}"
  by (simp add: dict_keys_def)

lemma dict_keys_Cons [simp]: "dict_keys (p # e) = insert (fst p) (dict_keys e)"
  by (simp add: dict_keys_def)

lemma dict_keys_dict_set: "dict_keys (dict_set d k v) = insert k (dict_keys d)"
proof (induction d)
  case Nil
  show ?case by simp
next
  case (Cons p d)
  obtain k' v' where p: "p = (k', v')" by (cases p)
  show ?case using Cons.IH by (simp add: p insert_commute)
qed

lemma dict_keys_dict_update: "dict_keys (dict_update d e) = dict_keys d \<union> dict_keys e"
proof (induction e arbitrary: d)
  case Nil
  show ?case by simp
next
  case (Cons p e)
  obtain k v where p: "p = (k, v)" by (cases p)
  show ?case
    using Cons.IH [of "dict_set d k v"] by (simp add: p dict_keys_dict_set)
qed

lemma dict_keys_iff: "k \<in> dict_keys d \<longleftrightarrow> map_of d k \<noteq> None"
  by (simp add: dict_keys_def map_of_eq_None_iff)

lemma main_fields_keys:
  "main_fields data = Inr e \<Longrightarrow>
   dict_keys e = {''temperature_celsius'', ''feels_like_celsius'', ''temp_min_celsius'',
                  ''temp_max_celsius'', ''humidity_percent'', ''pressure_hpa''}"
  unfolding main_fields_def bind_Inr_iff by (elim exE conjE) (simp only: sum.inject, hypsubst, simp)

lemma wind_fields_keys:
  "wind_fields data = Inr e \<Longrightarrow> dict_keys e = {''wind_speed_ms'', ''wind_direction_degrees''}"
  unfolding wind_fields_def bind_Inr_iff by (elim exE conjE) (simp only: sum.inject, hypsubst, simp)

lemma sun_fields_keys:
  "sun_fields data = Inr e \<Longrightarrow> dict_keys e = {''sunrise'', ''sunset''}"
  unfolding sun_fields_def bind_Inr_iff by (elim exE conjE) (simp only: sum.inject, hypsubst, simp)

lemma has_sun_times_JObj:
  assumes "map_of d ''sys'' = Some (JObj s)"
  shows "has_sun_times (JObj d) = Inr (''sunrise'' \<in> dict_keys s \<and> ''sunset'' \<in> dict_keys s)"
proof -
  have "''sys'' \<in> dict_keys d"
    using assms by (simp add: dict_keys_iff)
  then show ?thesis
    using assms by (simp add: has_sun_times_def subscript_JObj)
qed

lemma update_stage:
  assumes "(if c then bind m (\<lambda>e. Inr (dict_update td e)) else Inr td) = Inr td'"
    and "\<And>e. m = Inr e \<Longrightarrow> dict_keys e = K"
  shows "dict_keys td' = dict_keys td \<union> (if c then K else {})"
proof (cases c)
  case True
  with assms(1) obtain e where e: "m = Inr e" "td' = dict_update td e"
    by (auto simp: bind_Inr_iff)
  show ?thesis using assms(2) [OF e(1)] by (simp add: True e(2) dict_keys_dict_update)
next
  case False
  with assms(1) show ?thesis by simp
qed

lemma transform_stages:
  assumes "transform_weather_data now data = Inr out"
  shows "\<exists>d s c k wc wd td1 td2.
      data = JObj d \<and> map_of d ''sys'' = Some (JObj s) \<and>
      map_of d ''name'' = Some c \<and> map_of s ''country'' = Some k \<and>
      (if ''main'' \<in> dict_keys d
       then bind (main_fields data)
              (\<lambda>e. Inr (dict_update
                 [(''city'', c), (''country'', k), (''weather_condition'', wc),
                  (''weather_description'', wd), (''event_timestamp'', JInt now)] e))
       else Inr [(''city'', c), (''country'', k), (''weather_condition'', wc),
                  (''weather_description'', wd), (''event_timestamp'', JInt now)]) = Inr td1 \<and>
      (if ''wind'' \<in> dict_keys d
       then bind (wind_fields data) (\<lambda>e. Inr (dict_update td1 e)) else Inr td1) = Inr td2 \<and>
      (if ''sunrise'' \<in> dict_keys s \<and> ''sunset'' \<in> dict_keys s
       then bind (sun_fields data) (\<lambda>e. Inr (dict_update td2 e)) else Inr td2) = Inr out"
proof -
  from assms obtain city where 1: "subscript data ''name'' = Inr city"
    unfolding transform_weather_data_def bind_Inr_iff by blast
  then obtain d where d: "data = JObj d" and c: "map_of d ''name'' = Some city"
    unfolding subscript_Inr_iff by blast
  from assms obtain sv country where "subscript data ''sys'' = Inr sv" "subscript sv ''country'' = Inr country"
    unfolding transform_weather_data_def bind_Inr_iff by blast
  then obtain s where s: "map_of d ''sys'' = Some (JObj s)" and k: "map_of s ''country'' = Some country"
    unfolding subscript_Inr_iff d by blast
  note hs = has_sun_times_JObj [OF s]
  have sub: "subscript (JObj d) ''name'' = Inr city"
    "bind (subscript (JObj d) ''sys'') (\<lambda>s. subscript s ''country'') = Inr country"
    by (simp_all add: subscript_JObj c s k)
  show ?thesis
    using assms unfolding d transform_weather_data_def Let_def
    apply (simp only: py_in_JObj hs bind_Inr sub)
    apply (simp only: bind_Inr_iff)
    apply (elim exE conjE)
    apply (rule exI [of _ d], rule exI [of _ s], rule exI [of _ city], rule exI [of _ country])
    apply (intro exI conjI)
          apply (rule refl)
         apply (rule s)
        apply (rule c)
       apply (rule k)
      apply assumption
     apply assumption
    apply assumption
    done
qed

lemma map_of_dict_update:
  "map_of (dict_update d e) k =
     (case map_of (rev e) k of Some v \<Rightarrow> Some v | None \<Rightarrow> map_of d k)"
proof (induction e arbitrary: d)
  case Nil
  show ?case by simp
next
  case (Cons p e)
  obtain k' v' where p: "p = (k', v')" by (cases p)
  show ?case
    using Cons.IH [of "dict_set d k' v'"]
    by (simp add: p map_of_dict_set map_add_def split: option.splits)
qed



lemma wind_fields_eq:
  assumes "map_of d ''wind'' = Some wv" and "wind_fields (JObj d) = Inr e"
  shows "\<exists>wd. wv = JObj wd \<and>
      e = [(''wind_speed_ms'', case map_of wd ''speed'' of Some v \<Rightarrow> v | None \<Rightarrow> JNull),
           (''wind_direction_degrees'', case map_of wd ''deg'' of Some v \<Rightarrow> v | None \<Rightarrow> JNull)]"
proof -
  have sub: "subscript (JObj d) ''wind'' = Inr wv"
    using assms(1) by (simp add: subscript_JObj)
  from assms(2) obtain x where "get_method wv ''speed'' = Inr x"
    unfolding wind_fields_def sub bind_Inr bind_Inr_iff by blast
  then obtain wd where wd: "wv = JObj wd"
    by (cases wv) (simp_all add: get_method_def)
  show ?thesis
    using assms(2) unfolding wind_fields_def sub bind_Inr wd
    by (simp add: get_method_def)
qed

lemma transform_obs_calm: "transform_weather_data 1700000123 obs_calm = Inr rec_calm"
  by (simp add: transform_weather_data_def obs_calm_def rec_calm_def subscript_def subscript0_def
      wind_fields_def has_sun_times_def get_method_def)

lemma groups_disjoint:
  "required_fields \<inter> main_metric_fields = {}"
  "required_fields \<inter> wind_field_names = {}"
  "required_fields \<inter> sun_field_names = {}"
  "main_metric_fields \<inter> wind_field_names = {}"
  "main_metric_fields \<inter> sun_field_names = {}"
  "wind_field_names \<inter> sun_field_names = {}"
  by (simp_all add: required_fields_def main_metric_fields_def wind_field_names_def sun_field_names_def)

lemma map_of_rev_None: "k \<notin> dict_keys e \<Longrightarrow> map_of (rev e) k = None"
  by (simp add: dict_keys_def map_of_eq_None_iff)

lemma stage_lookup:
  assumes "(if c then bind m (\<lambda>e. Inr (dict_update td e)) else Inr td) = Inr td'"
    and "\<And>e. m = Inr e \<Longrightarrow> k \<notin> dict_keys e"
  shows "map_of td' k = map_of td k"
proof (cases c)
  case True
  with assms(1) obtain e where e: "m = Inr e" "td' = dict_update td e"
    by (auto simp: bind_Inr_iff)
  show ?thesis
    by (simp add: e(2) map_of_dict_update map_of_rev_None [OF assms(2) [OF e(1)]])
next
  case False
  with assms(1) show ?thesis by simp
qed

lemma sun_stage_keeps:
  assumes "(if c then bind (sun_fields data) (\<lambda>e. Inr (dict_update td e)) else Inr td) = Inr td'"
    and "k \<notin> sun_field_names"
  shows "map_of td' k = map_of td k"
  using assms(1)
proof (rule stage_lookup)
  fix e assume "sun_fields data = Inr e"
  from sun_fields_keys [OF this] assms(2) show "k \<notin> dict_keys e"
    by (simp add: sun_field_names_def)
qed


lemma get_api_key_body_calls:
  "fst (get_api_key_body w) = [] \<or> (\<exists>n. fst (get_api_key_body w) = [SecretsGet n])"
  by (simp add: get_api_key_body_def split: option.splits)

lemma get_api_key_fst: "fst (get_api_key w) = fst (get_api_key_body w)"
  by (cases "get_api_key_body w") (simp add: get_api_key_def split: sum.splits)

lemma get_api_key_calls:
  "fst (get_api_key w) = [] \<or> (\<exists>n. fst (get_api_key w) = [SecretsGet n])"
  using get_api_key_body_calls [of w] by (simp add: get_api_key_fst)


lemma get_api_key_quiet:
  "list_all (\<lambda>c. \<not> is_http_get c \<and> \<not> is_firehose_put c) (fst (get_api_key w))"
  using get_api_key_calls [of w] by (auto simp: is_http_get_def is_firehose_put_def)

lemma lambda_handler_boundary:
  "lambda_handler_body w event = (cs, Inl e) \<Longrightarrow>
   lambda_handler w event =
     (cs, \<lparr>statusCode = 500, body = error_body w (''Error processing weather data: '' @ exn_str e)\<rparr>)"
  by (simp add: lambda_handler_def)

lemma lambda_handler_no_key:
  assumes "get_api_key w = (cs, Inr k)" and "\<not> truthy k"
  shows "lambda_handler_body w event = (cs, Inl no_api_key)"
  using assms by (simp add: lambda_handler_body_def Let_def)

lemma decode_utf8_Inr: "decode_utf8 w b = Inr t \<Longrightarrow> t = b"
  by (simp add: decode_utf8_def split: if_splits)

lemma lambda_handler_body_error_status:
  assumes "get_api_key w = (cs, Inr k)" and "truthy k"
    and "http_request w (request_url w (target_city w event) k) = Inr r"
    and "resp_status r \<noteq> 200"
  shows "lambda_handler_body w event =
     (cs @ [HttpGet (request_url w (target_city w event) k)], error_reply w r)"
  using assms by (simp add: lambda_handler_body_def Let_def)

lemma lambda_handler_body_ok_status:
  assumes "get_api_key w = (cs, Inr k)" and "truthy k"
    and "http_request w (request_url w (target_city w event) k) = Inr r"
    and "resp_status r = 200"
  shows "lambda_handler_body w event =
     (case prepare_record w r of
        Inl e \<Rightarrow> (cs @ [HttpGet (request_url w (target_city w event) k)], Inl e)
      | Inr json_data \<Rightarrow>
          (cs @ [HttpGet (request_url w (target_city w event) k),
                 FirehosePut (DELIVERY_STREAM_NAME w) json_data],
           bind (put_record w (DELIVERY_STREAM_NAME w) json_data)
             (\<lambda>r. Inr (success_reply w (target_city w event) r))))"
  using assms by (simp add: lambda_handler_body_def Let_def)

lemma lambda_handler_body_fetch_fails:
  assumes "get_api_key w = (cs, Inr k)" and "truthy k"
    and "http_request w (request_url w (target_city w event) k) = Inl e"
  shows "lambda_handler_body w event =
     (cs @ [HttpGet (request_url w (target_city w event) k)], Inl e)"
  using assms by (simp add: lambda_handler_body_def Let_def)

lemma get_api_key_unset:
  assumes "SECRET_NAME w = None \<or> SECRET_NAME w = Some []"
  shows "get_api_key w = ([], Inr (environ_get w ''OpenWeatherMapApiKey''))"
  using assms by (auto simp: get_api_key_def get_api_key_body_def)

lemma get_api_key_env_only:
  "environ w ''WEATHER_API_SECRET_NAME'' = None \<Longrightarrow>
   get_api_key w = ([], Inr (environ_get w ''OpenWeatherMapApiKey''))"
  by (simp add: get_api_key_unset SECRET_NAME_def)



lemma get_api_key_structured_secret:
  assumes "SECRET_NAME w = Some n" and "n \<noteq> []" and "get_secret_value w n = Inr (Some secret)"
    and "json_loads w secret = Inr (JObj d)"
  shows "get_api_key w =
     ([SecretsGet n], Inr (case map_of d ''OpenWeatherMapApiKey'' of Some x \<Rightarrow> x | None \<Rightarrow> JNull))"
  using assms by (simp add: get_api_key_def get_api_key_body_def get_method_def)

lemma lambda_handler_same_city:
  assumes "target_city w e1 = target_city w e2"
  shows "lambda_handler w e1 = lambda_handler w e2"
  unfolding lambda_handler_def lambda_handler_body_def assms by (rule refl)

lemma target_city_absent:
  "map_of event ''city'' = None \<Longrightarrow>
   target_city w event = py_or (JStr (DEFAULT_CITY w)) (JStr (random_choice w RANDOM_CITIES))"
  by (simp add: target_city_def py_or_def)

lemma target_city_falsy:
  "map_of event ''city'' = Some c \<Longrightarrow> \<not> truthy c \<Longrightarrow>
   target_city w event = py_or (JStr (DEFAULT_CITY w)) (JStr (random_choice w RANDOM_CITIES))"
  by (simp add: target_city_def py_or_def)



lemma transform_missing_field:
  assumes "map_of d ''name'' = None \<or> map_of d ''sys'' = None \<or>
     (\<exists>s. map_of d ''sys'' = Some (JObj s) \<and>
        (map_of s ''country'' = None \<or> map_of d ''weather'' = Some (JArr [])))"
  shows "\<exists>e. transform_weather_data now (JObj d) = Inl e \<and> missing_field e"
proof (cases "map_of d ''name''")
  case None
  then have "transform_weather_data now (JObj d) = Inl (key_error ''name'')"
    by (simp add: transform_weather_data_def subscript_JObj)
  then show ?thesis by (simp add: missing_field_def key_error_def)
next
  case (Some c)
  note name = this
  show ?thesis
  proof (cases "map_of d ''sys''")
    case None
    then have "transform_weather_data now (JObj d) = Inl (key_error ''sys'')"
      by (simp add: transform_weather_data_def subscript_JObj name)
    then show ?thesis by (simp add: missing_field_def key_error_def)
  next
    case (Some sv)
    with assms name obtain s where s: "map_of d ''sys'' = Some (JObj s)"
      and alt: "map_of s ''country'' = None \<or> map_of d ''weather'' = Some (JArr [])"
      by auto
    show ?thesis
    proof (cases "map_of s ''country''")
      case None
      then have "transform_weather_data now (JObj d) = Inl (key_error ''country'')"
        by (simp add: transform_weather_data_def subscript_JObj name s)
      then show ?thesis by (simp add: missing_field_def key_error_def)
    next
      case (Some k)
      with alt have w: "map_of d ''weather'' = Some (JArr [])" by simp
      have "transform_weather_data now (JObj d) = Inl (Exn IndexError ''list index out of range'')"
        by (simp add: transform_weather_data_def subscript_JObj name s Some w subscript0_def)
      then show ?thesis by (simp add: missing_field_def)
    qed
  qed
qed

lemma prepare_record_transform_fails:
  assumes "utf8_valid (map of_char (resp_data r))"
    and "json_loads w (resp_data r) = Inr data"
    and "transform_weather_data (clock w) data = Inl e"
  shows "prepare_record w r = Inl e"
  using assms by (simp add: prepare_record_def decode_utf8_def)

lemma world_offline_fields [simp]:
  "environ world_offline = Map.empty"
  "get_secret_value world_offline = (\<lambda>n. Inl (Exn LibraryError ''secret store unavailable''))"
  "http_request world_offline = (\<lambda>u. Inl (Exn LibraryError ''no route to host''))"
  "put_record world_offline = (\<lambda>s d. Inl (Exn LibraryError ''stream unavailable''))"
  "random_draw world_offline = 4"
  "clock world_offline = 1700000123"
  "json_loads world_offline =
     (\<lambda>s. Inl (Exn JSONDecodeError ''Expecting value: line 1 column 1 (char 0)''))"
  "json_dumps world_offline = toy_dumps"
  by (simp_all add: world_offline_def)

lemma world_404_fields [simp]:
  "environ world_404 = [''OpenWeatherMapApiKey'' \<mapsto> ''k1'']"
  "http_request world_404 = (\<lambda>u. Inr \<lparr>resp_status = 404, resp_data = ''city not found''\<rparr>)"
  "random_draw world_404 = 4"
  "json_dumps world_404 = toy_dumps"
  by (simp_all add: world_404_def world_offline_def)

lemma world_bad_bytes_fields [simp]:
  "environ world_bad_bytes = [''OpenWeatherMapApiKey'' \<mapsto> ''k1'']"
  "http_request world_bad_bytes = (\<lambda>u. Inr \<lparr>resp_status = 404, resp_data = [CHR 0xFF]\<rparr>)"
  "codec_error_text world_bad_bytes = (\<lambda>b. ''invalid start byte'')"
  "json_dumps world_bad_bytes = toy_dumps"
  by (simp_all add: world_bad_bytes_def world_404_def world_offline_def)

lemma world_malformed_fields [simp]:
  "environ world_malformed = [''OpenWeatherMapApiKey'' \<mapsto> ''k1'']"
  "http_request world_malformed = (\<lambda>u. Inr \<lparr>resp_status = 200, resp_data = ''{}''\<rparr>)"
  "json_loads world_malformed =
     (\<lambda>s. if s = ''{}'' then Inr (JObj []) else
           Inl (Exn JSONDecodeError ''Expecting value: line 1 column 1 (char 0)''))"
  "clock world_malformed = 1700000123"
  "json_dumps world_malformed = toy_dumps"
  by (simp_all add: world_malformed_def world_404_def world_offline_def)

lemma world_secret_fields [simp]:
  "environ world_secret = [''WEATHER_API_SECRET_NAME'' \<mapsto> ''prod/weather'']"
  "get_secret_value world_secret = (\<lambda>n. Inr (Some ''abc123''))"
  "json_loads world_secret =
     (\<lambda>s. Inl (Exn JSONDecodeError ''Expecting value: line 1 column 1 (char 0)''))"
  by (simp_all add: world_secret_def world_offline_def)

lemma world_random_fields [simp]:
  "environ world_random = [''DEFAULT_CITY'' \<mapsto> []]"
  "random_draw world_random = 4"
  by (simp_all add: world_random_def world_offline_def)

lemma error_body_toy [simp]:
  "json_dumps w = toy_dumps \<Longrightarrow> error_body w msg = ''error: '' @ msg"
  by (simp add: error_body_def toy_dumps_def)

lemma floor_rat_numeral_div:
  "\<lfloor>numeral a / numeral b :: rat\<rfloor> = numeral a div numeral b"
  "\<lfloor>- (numeral a / numeral b) :: rat\<rfloor> = - numeral a div numeral b"
  using floor_divide_of_int_eq [of "numeral a" "numeral b", where ?'a = rat]
    floor_divide_of_int_eq [of "- numeral a" "numeral b", where ?'a = rat]
  by simp_all

lemma ceiling_rat_numeral_div:
  "\<lceil>numeral a / numeral b :: rat\<rceil> = - (- numeral a div numeral b)"
  "\<lceil>- (numeral a / numeral b) :: rat\<rceil> = - (numeral a div numeral b)"
  unfolding ceiling_def by (simp_all add: floor_rat_numeral_div)

lemmas float_eval = floor_log2_def round_half_even_def pow2_def compute_bitlen Let_def
  floor_rat_numeral_div ceiling_rat_numeral_div

lemma to_double_step:
  assumes "q \<noteq> 0" and "floor_log2 \<bar>q\<bar> = l" and "max (l - 52) (- 1074) = e"
    and "round_half_even (\<bar>q\<bar> / pow2 e) = m" and "of_int m * pow2 e = v"
    and "\<not> 2 ^ 1024 \<le> v" and "m \<noteq> 0"
  shows "to_double q = Finite (if q < 0 then - v else v)"
  unfolding to_double_def Let_def assms(2) assms(3) assms(4) assms(5)
  using assms(1) assms(6) assms(7) by (simp only: if_False)

lemma double_300_15: "to_double (30015 / 100) = Finite (2640147320615731 / 8796093022208)"
  using to_double_step [of "30015 / 100" 8 "- 44" 5280294641231462 "2640147320615731 / 8796093022208"]
  by (simp add: float_eval)

lemma double_273_15: "to_double (27315 / 100) = Finite (2402652809016115 / 8796093022208)"
  using to_double_step [of "27315 / 100" 8 "- 44" 4805305618032230 "2402652809016115 / 8796093022208"]
  by (simp add: float_eval)

lemma double_27: "to_double 27 = Finite 27"
  using to_double_step [of 27 4 "- 48" "27 * 2 ^ 48" 27]
  by (simp add: float_eval)

lemma kelvin_to_celsius_JFloat:
  "kelvin_to_celsius (JFloat x) = Inr (JFloat (py_round (fsub x c273_15) 2))"
  by (simp add: kelvin_to_celsius_def)


lemma py_round_27: "py_round (Finite 27) 2 = Finite 27"
  by (simp add: py_round_def round_half_even_def Let_def double_27)

lemma py_round_0: "py_round (Finite 0) 2 = Finite 0"
  by (simp add: py_round_def round_half_even_def Let_def to_double_def)

lemma celsius_300_15:
  "kelvin_to_celsius (JFloat (to_double (30015 / 100))) = Inr (JFloat (Finite 27))"
  unfolding kelvin_to_celsius_JFloat double_300_15 c273_15_def double_273_15
  by (simp add: double_27 py_round_27)

lemma celsius_273_15:
  "kelvin_to_celsius (JFloat (to_double (27315 / 100))) = Inr (JFloat (Finite 0))"
  unfolding kelvin_to_celsius_JFloat double_273_15 c273_15_def
  by (simp add: py_round_0)

lemma celsius_kelvin_300_15 [simp]:
  "kelvin_to_celsius (JFloat kelvin_300_15) = Inr (JFloat (Finite 27))"
  unfolding kelvin_300_15_def by (rule celsius_300_15)

lemma celsius_c273_15 [simp]: "kelvin_to_celsius (JFloat c273_15) = Inr (JFloat (Finite 0))"
  unfolding c273_15_def by (rule celsius_273_15)

lemmas calendar_eval = format_timestamp_def utcfromtimestamp_def datetime_from_seconds_def
  gmtime_def ord2ymd_def month_day_def days_before_month_def days_in_month_def
  strftime_utc_def pad2_def show_int_def dec.simps digit_def Let_def

lemma format_1700000000 [simp]:
  "format_timestamp (JInt 1700000000) = Inr (JStr ''2023-11-14 22:13:20 UTC'')"
  by (simp add: calendar_eval)

lemma format_1700030000 [simp]:
  "format_timestamp (JInt 1700030000) = Inr (JStr ''2023-11-15 06:33:20 UTC'')"
  by (simp add: calendar_eval)



section \<open>Properties of the Weather Transformer\<close>

text \<open>
  Claim C1. Whenever the Transformer accepts an input, the input is a JSON object with a
  \<^verbatim>\<open>sys\<close> object, and the keys of the output record are exactly the five required
  fields, together with the six main-metrics fields exactly when the input has a
  \<^verbatim>\<open>main\<close> section, the two wind fields exactly when it has a \<^verbatim>\<open>wind\<close> section, and
  \<^verbatim>\<open>sunrise\<close> and \<^verbatim>\<open>sunset\<close> exactly when \<^verbatim>\<open>sys\<close> has both timestamps. The groups are
  pairwise disjoint, so a group whose section is absent contributes no key at all, not
  even one with a null value.
\<close>

theorem transform_field_groups:
  assumes "transform_weather_data now data = Inr out"
  shows "\<exists>d s. data = JObj d \<and> map_of d ''sys'' = Some (JObj s) \<and>
     dict_keys out =
       required_fields
       \<union> (if ''main'' \<in> dict_keys d then main_metric_fields else {})
       \<union> (if ''wind'' \<in> dict_keys d then wind_field_names else {})
       \<union> (if ''sunrise'' \<in> dict_keys s \<and> ''sunset'' \<in> dict_keys s then sun_field_names else {}) \<and>
     required_fields \<inter> main_metric_fields = {} \<and>
     required_fields \<inter> wind_field_names = {} \<and>
     required_fields \<inter> sun_field_names = {} \<and>
     main_metric_fields \<inter> wind_field_names = {} \<and>
     main_metric_fields \<inter> sun_field_names = {} \<and>
     wind_field_names \<inter> sun_field_names = {}"
proof -
  from transform_stages [OF assms] obtain d s c k wc wd td1 td2 where
    d: "data = JObj d" and s: "map_of d ''sys'' = Some (JObj s)"
    and 1: "(if ''main'' \<in> dict_keys d
       then bind (main_fields data)
              (\<lambda>e. Inr (dict_update
                 [(''city'', c), (''country'', k), (''weather_condition'', wc),
                  (''weather_description'', wd), (''event_timestamp'', JInt now)] e))
       else Inr [(''city'', c), (''country'', k), (''weather_condition'', wc),
                  (''weather_description'', wd), (''event_timestamp'', JInt now)]) = Inr td1"
    and 2: "(if ''wind'' \<in> dict_keys d
       then bind (wind_fields data) (\<lambda>e. Inr (dict_update td1 e)) else Inr td1) = Inr td2"
    and 3: "(if ''sunrise'' \<in> dict_keys s \<and> ''sunset'' \<in> dict_keys s
       then bind (sun_fields data) (\<lambda>e. Inr (dict_update td2 e)) else Inr td2) = Inr out"
    by blast
  have k1: "dict_keys td1 = required_fields \<union> (if ''main'' \<in> dict_keys d then main_metric_fields else {})"
    using update_stage [OF 1, of main_metric_fields] main_fields_keys [of data]
    by (simp add: required_fields_def main_metric_fields_def)
  have k2: "dict_keys td2 = dict_keys td1 \<union> (if ''wind'' \<in> dict_keys d then wind_field_names else {})"
    using update_stage [OF 2, of wind_field_names] wind_fields_keys [of data]
    by (simp add: wind_field_names_def)
  have k3: "dict_keys out = dict_keys td2
      \<union> (if ''sunrise'' \<in> dict_keys s \<and> ''sunset'' \<in> dict_keys s then sun_field_names else {})"
    using update_stage [OF 3, of sun_field_names] sun_fields_keys [of data]
    by (simp add: sun_field_names_def)
  show ?thesis
    using d s groups_disjoint by (simp only: k1 k2 k3) blast
qed

theorem transform_field_groups_witness:
  "transform_weather_data 1700000123 obs_calm = Inr rec_calm \<and>
   dict_keys rec_calm = required_fields \<union> wind_field_names"
proof -
  have h: "transform_weather_data 1700000123 obs_calm = Inr rec_calm"
    by (rule transform_obs_calm)
  from transform_field_groups [OF h] obtain d s where
    "obs_calm = JObj d" and "map_of d ''sys'' = Some (JObj s)"
    and "dict_keys rec_calm =
       required_fields
       \<union> (if ''main'' \<in> dict_keys d then main_metric_fields else {})
       \<union> (if ''wind'' \<in> dict_keys d then wind_field_names else {})
       \<union> (if ''sunrise'' \<in> dict_keys s \<and> ''sunset'' \<in> dict_keys s then sun_field_names else {})"
    by blast
  then have "dict_keys rec_calm = required_fields \<union> wind_field_names"
    by (auto simp: obs_calm_def)
  with h show ?thesis by simp
qed

text \<open>
  Claim C3, as the code has it. When the Transformer accepts an input whose \<^verbatim>\<open>wind\<close>
  section is present, that section is an object and the output has both wind fields:
  each is the value of the sub-field \<^verbatim>\<open>speed\<close> or \<^verbatim>\<open>deg\<close>, unmodified, when the
  sub-field is present, and the null value (not zero, and not an omitted key) when it is
  missing.
\<close>

theorem wind_subfields:
  assumes "transform_weather_data now (JObj d) = Inr out"
    and "map_of d ''wind'' = Some w"
  shows "\<exists>wd. w = JObj wd \<and>
     map_of out ''wind_speed_ms'' =
       Some (case map_of wd ''speed'' of Some v \<Rightarrow> v | None \<Rightarrow> JNull) \<and>
     map_of out ''wind_direction_degrees'' =
       Some (case map_of wd ''deg'' of Some v \<Rightarrow> v | None \<Rightarrow> JNull)"
proof -
  from transform_stages [OF assms(1)] obtain s td1 td2 where
    2: "(if ''wind'' \<in> dict_keys d
       then bind (wind_fields (JObj d)) (\<lambda>e. Inr (dict_update td1 e)) else Inr td1) = Inr td2"
    and 3: "(if ''sunrise'' \<in> dict_keys s \<and> ''sunset'' \<in> dict_keys s
       then bind (sun_fields (JObj d)) (\<lambda>e. Inr (dict_update td2 e)) else Inr td2) = Inr out"
    by (elim exE conjE) (simp only: json.inject)
  have "''wind'' \<in> dict_keys d"
    using assms(2) by (simp add: dict_keys_iff)
  with 2 obtain e where e: "wind_fields (JObj d) = Inr e" and td2: "td2 = dict_update td1 e"
    by (auto simp: bind_Inr_iff)
  from wind_fields_eq [OF assms(2) e] obtain wd where wd: "w = JObj wd"
    and e_eq: "e = [(''wind_speed_ms'', case map_of wd ''speed'' of Some v \<Rightarrow> v | None \<Rightarrow> JNull),
           (''wind_direction_degrees'', case map_of wd ''deg'' of Some v \<Rightarrow> v | None \<Rightarrow> JNull)]"
    by blast
  have a: "map_of out ''wind_speed_ms'' = map_of td2 ''wind_speed_ms''"
    by (rule sun_stage_keeps [OF 3]) (simp add: sun_field_names_def)
  have b: "map_of out ''wind_direction_degrees'' = map_of td2 ''wind_direction_degrees''"
    by (rule sun_stage_keeps [OF 3]) (simp add: sun_field_names_def)
  show ?thesis
    by (simp add: a b td2 e_eq wd map_of_dict_set)
qed

theorem wind_subfields_witness:
  "transform_weather_data 1700000123 obs_calm = Inr rec_calm \<and>
   map_of rec_calm ''wind_speed_ms'' = Some JNull \<and>
   map_of rec_calm ''wind_direction_degrees'' = Some (JInt 250)"
proof -
  have h: "transform_weather_data 1700000123 (JObj [(''name'', JStr ''Cairo''),
           (''sys'', JObj [(''country'', JStr ''EG''), (''sunrise'', JInt 1700000000)]),
           (''weather'', JArr [JObj [(''main'', JStr ''Clear''), (''description'', JStr ''clear sky'')]]),
           (''wind'', JObj [(''deg'', JInt 250)])]) = Inr rec_calm"
    using transform_obs_calm by (simp add: obs_calm_def)
  from wind_subfields [OF h, of "JObj [(''deg'', JInt 250)]"] transform_obs_calm
  show ?thesis by simp
qed

text \<open>
  The claim as the specification states it fails: the observation \<open>obs_calm\<close> has a wind
  section without \<^verbatim>\<open>speed\<close>, and the record made from it has the key \<^verbatim>\<open>wind_speed_ms\<close>,
  bound to the null value.
\<close>

theorem wind_speed_not_omitted:
  "subscript obs_calm ''wind'' = Inr (JObj [(''deg'', JInt 250)]) \<and>
   transform_weather_data 1700000123 obs_calm = Inr rec_calm \<and>
   ''wind_speed_ms'' \<in> dict_keys rec_calm \<and>
   map_of rec_calm ''wind_speed_ms'' = Some JNull"
  using transform_obs_calm by (simp add: obs_calm_def rec_calm_def subscript_def)



section \<open>Properties of the Credential Resolver\<close>

text \<open>
  A secret that parses as JSON but not to an object (a number, a string, a list) is
  neither case of the inner \<^verbatim>\<open>try\<close>: \<^verbatim>\<open>.get\<close> raises \<^verbatim>\<open>AttributeError\<close>, which the
  outer handler catches, and the environment value is returned.
\<close>

lemma get_api_key_scalar_secret:
  assumes "SECRET_NAME w = Some n" and "n \<noteq> []" and "get_secret_value w n = Inr (Some secret)"
    and "json_loads w secret = Inr v" and "\<forall>d. v \<noteq> JObj d"
  shows "get_api_key w = ([SecretsGet n], Inr (environ_get w ''OpenWeatherMapApiKey''))"
  using assms by (cases v) (simp_all add: get_api_key_def get_api_key_body_def get_method_def)



section \<open>Properties of the Ingestion Orchestrator\<close>



text \<open>
  Claim C10. A trigger input whose \<^verbatim>\<open>city\<close> is present but false (the empty string,
  \<^verbatim>\<open>None\<close>, zero, an empty list or object) gives the same target city and the same
  handler result as a trigger input without \<^verbatim>\<open>city\<close>: the configured default city when
  that is not empty.
\<close>

theorem falsy_city_is_absent:
  assumes "map_of event ''city'' = Some c" and "\<not> truthy c"
    and "map_of event' ''city'' = None"
  shows "target_city w event = target_city w event' \<and>
     lambda_handler w event = lambda_handler w event' \<and>
     (DEFAULT_CITY w \<noteq> [] \<longrightarrow> target_city w event = JStr (DEFAULT_CITY w))"
proof -
  have eq: "target_city w event = target_city w event'"
    by (simp add: target_city_falsy [OF assms(1,2)] target_city_absent [OF assms(3)])
  have "DEFAULT_CITY w \<noteq> [] \<longrightarrow> target_city w event = JStr (DEFAULT_CITY w)"
    by (simp add: target_city_falsy [OF assms(1,2)] py_or_def)
  with eq lambda_handler_same_city [OF eq] show ?thesis by simp
qed

theorem falsy_city_is_absent_witness:
  "target_city world_404 [(''city'', JStr [])] = JStr ''London'' \<and>
   lambda_handler world_404 [(''city'', JStr [])] = lambda_handler world_404 []"
  using falsy_city_is_absent [of "[(''city'', JStr [])]" "JStr []" "[]" world_404]
  by (auto simp: DEFAULT_CITY_def)

text \<open>
  Claim C7. When the Credential Resolver returns a false value (\<^verbatim>\<open>None\<close> or an empty
  key), the handler returns status 500 with the message of the configuration error in
  its error body, and the only calls made are those of the resolver: no HTTP request.
\<close>

theorem no_api_key_is_configuration_error:
  assumes "snd (get_api_key w) = Inr k" and "\<not> truthy k"
  shows "snd (lambda_handler w event) =
       \<lparr>statusCode = 500,
        body = error_body w (''Error processing weather data: '' @
          ''No API key available. Set WEATHER_API_KEY environment variable or configure secret.'')\<rparr> \<and>
     fst (lambda_handler w event) = fst (get_api_key w) \<and>
     list_all (\<lambda>c. \<not> is_http_get c) (fst (lambda_handler w event))"
proof -
  obtain cs where g: "get_api_key w = (cs, Inr k)"
    using assms(1) by (cases "get_api_key w") simp
  have r: "lambda_handler w event =
      (cs, \<lparr>statusCode = 500, body = error_body w (''Error processing weather data: '' @ exn_str no_api_key)\<rparr>)"
    by (rule lambda_handler_boundary [OF lambda_handler_no_key [OF g assms(2)]])
  have q: "list_all (\<lambda>c. \<not> is_http_get c) cs"
    using get_api_key_quiet [of w] by (simp add: g list_all_iff)
  show ?thesis
    using q by (simp add: r g no_api_key_def)
qed

theorem no_api_key_is_configuration_error_witness:
  "get_api_key world_offline = ([], Inr JNull) \<and>
   lambda_handler world_offline [] =
     ([], \<lparr>statusCode = 500,
           body = ''error: Error processing weather data: No API key available. Set WEATHER_API_KEY environment variable or configure secret.''\<rparr>)"
proof -
  have g: "get_api_key world_offline = ([], Inr JNull)"
    by (simp add: get_api_key_unset SECRET_NAME_def environ_get_def)
  from no_api_key_is_configuration_error [of world_offline JNull "[]"] g
  show ?thesis
    by (cases "lambda_handler world_offline []") simp
qed

text \<open>
  Claim C6, as the code has it. When the provider answers with a status other than 200
  and a body that is well-formed UTF-8, the handler returns that status with an error
  body that embeds the status and the body text; the calls end with the HTTP request,
  so the delivery stream is not called, and the result does not depend on the parser or
  the Transformer.
\<close>

theorem provider_error_status:
  assumes "get_api_key w = (cs, Inr k)" and "truthy k"
    and "http_request w (request_url w (target_city w event) k) = Inr r"
    and "resp_status r \<noteq> 200"
    and "utf8_valid (map of_char (resp_data r))"
  shows "lambda_handler w event =
       (cs @ [HttpGet (request_url w (target_city w event) k)],
        \<lparr>statusCode = resp_status r,
         body = error_body w (''Weather API error: Status '' @ show_int (resp_status r)
                              @ '', Response: '' @ resp_data r)\<rparr>) \<and>
     list_all (\<lambda>c. \<not> is_firehose_put c) (fst (lambda_handler w event))"
proof -
  have b: "lambda_handler_body w event =
     (cs @ [HttpGet (request_url w (target_city w event) k)], error_reply w r)"
    by (rule lambda_handler_body_error_status [OF assms(1-4)])
  have e: "error_reply w r =
     Inr \<lparr>statusCode = resp_status r,
          body = error_body w (''Weather API error: Status '' @ show_int (resp_status r)
                               @ '', Response: '' @ resp_data r)\<rparr>"
    using assms(5) by (simp add: error_reply_def decode_utf8_def)
  have q: "list_all (\<lambda>c. \<not> is_firehose_put c) cs"
    using get_api_key_quiet [of w] by (simp add: assms(1) list_all_iff)
  show ?thesis
    using q by (simp add: lambda_handler_def b e is_firehose_put_def)
qed

theorem provider_error_status_witness:
  "lambda_handler world_404 [] =
     ([HttpGet ''https://api.openweathermap.org/data/2.5/weather?q=London&appid=k1''],
      \<lparr>statusCode = 404,
       body = ''error: Weather API error: Status 404, Response: city not found''\<rparr>)"
proof -
  have g: "get_api_key world_404 = ([], Inr (JStr ''k1''))"
    by (simp add: get_api_key_env_only environ_get_def)
  have c: "target_city world_404 [] = JStr ''London''"
    by (simp add: target_city_def py_or_def DEFAULT_CITY_def)
  have s: "show_int 404 = ''404''"
    by (simp add: show_int_def dec.simps digit_def)
  from provider_error_status [OF g, of "[]" "\<lparr>resp_status = 404, resp_data = ''city not found''\<rparr>"]
  show ?thesis
    by (simp add: c s request_url_def py_str_def WEATHER_API_URL_def)
qed

text \<open>
  The claim as the specification states it fails for a body that is not UTF-8: the
  provider answers 404 with the single byte \<open>0xFF\<close>, decoding the body for the error
  message raises \<^verbatim>\<open>UnicodeDecodeError\<close> inside the \<^verbatim>\<open>try\<close> statement, and the handler
  returns status 500.
\<close>

theorem undecodable_error_body_gives_500:
  "get_api_key world_bad_bytes = ([], Inr (JStr ''k1'')) \<and>
   http_request world_bad_bytes
     (request_url world_bad_bytes (target_city world_bad_bytes []) (JStr ''k1'')) =
     Inr \<lparr>resp_status = 404, resp_data = [CHR 0xFF]\<rparr> \<and>
   lambda_handler world_bad_bytes [] =
     ([HttpGet (request_url world_bad_bytes (target_city world_bad_bytes []) (JStr ''k1''))],
      \<lparr>statusCode = 500,
       body = ''error: Error processing weather data: invalid start byte''\<rparr>)"
proof -
  have g: "get_api_key world_bad_bytes = ([], Inr (JStr ''k1''))"
    by (simp add: get_api_key_env_only environ_get_def)
  have b: "lambda_handler_body world_bad_bytes [] =
     ([] @ [HttpGet (request_url world_bad_bytes (target_city world_bad_bytes []) (JStr ''k1''))],
      error_reply world_bad_bytes \<lparr>resp_status = 404, resp_data = [CHR 0xFF]\<rparr>)"
    by (rule lambda_handler_body_error_status [OF g]) simp_all
  have e: "error_reply world_bad_bytes \<lparr>resp_status = 404, resp_data = [CHR 0xFF]\<rparr> =
     Inl (Exn UnicodeDecodeError ''invalid start byte'')"
    by (simp add: error_reply_def decode_utf8_def)
  show ?thesis
    by (simp add: g lambda_handler_def b e)
qed

text \<open>
  Claim C8. For a JSON object whose \<^verbatim>\<open>name\<close> or \<^verbatim>\<open>sys\<close> is absent, or whose \<^verbatim>\<open>sys\<close>
  object has no \<^verbatim>\<open>country\<close> or comes with an empty \<^verbatim>\<open>weather\<close> list, the Transformer
  raises \<^verbatim>\<open>KeyError\<close> or \<^verbatim>\<open>IndexError\<close>. Every exception of the handler's body becomes a
  reply with status 500 whose error body contains the exception's message; so does, in
  particular, an exception of the Transformer on the parsed provider response (the
  delivery stream is then not called) and an exception of the delivery stream.
\<close>

theorem malformed_observation_status_500:
  "((map_of d ''name'' = None \<or> map_of d ''sys'' = None \<or>
     (\<exists>s. map_of d ''sys'' = Some (JObj s) \<and>
        (map_of s ''country'' = None \<or> map_of d ''weather'' = Some (JArr [])))) \<longrightarrow>
    (\<exists>x. transform_weather_data now (JObj d) = Inl x \<and> missing_field x)) \<and>
   (lambda_handler_body w event = (cs, Inl e) \<longrightarrow>
    lambda_handler w event =
      (cs, \<lparr>statusCode = 500,
            body = error_body w (''Error processing weather data: '' @ exn_str e)\<rparr>)) \<and>
   (get_api_key w = (cs, Inr k) \<and> truthy k \<and>
    http_request w (request_url w (target_city w event) k) = Inr r \<and> resp_status r = 200 \<and>
    utf8_valid (map of_char (resp_data r)) \<and> json_loads w (resp_data r) = Inr data \<and>
    transform_weather_data (clock w) data = Inl e \<longrightarrow>
    lambda_handler w event =
      (cs @ [HttpGet (request_url w (target_city w event) k)],
       \<lparr>statusCode = 500,
        body = error_body w (''Error processing weather data: '' @ exn_str e)\<rparr>)) \<and>
   (get_api_key w = (cs, Inr k) \<and> truthy k \<and>
    http_request w (request_url w (target_city w event) k) = Inr r \<and> resp_status r = 200 \<and>
    prepare_record w r = Inr json_data \<and>
    put_record w (DELIVERY_STREAM_NAME w) json_data = Inl e \<longrightarrow>
    lambda_handler w event =
      (cs @ [HttpGet (request_url w (target_city w event) k),
             FirehosePut (DELIVERY_STREAM_NAME w) json_data],
       \<lparr>statusCode = 500,
        body = error_body w (''Error processing weather data: '' @ exn_str e)\<rparr>))"
proof (intro conjI impI)
  assume "map_of d ''name'' = None \<or> map_of d ''sys'' = None \<or>
     (\<exists>s. map_of d ''sys'' = Some (JObj s) \<and>
        (map_of s ''country'' = None \<or> map_of d ''weather'' = Some (JArr [])))"
  then show "\<exists>x. transform_weather_data now (JObj d) = Inl x \<and> missing_field x"
    by (rule transform_missing_field)
next
  assume "lambda_handler_body w event = (cs, Inl e)"
  then show "lambda_handler w event =
      (cs, \<lparr>statusCode = 500,
            body = error_body w (''Error processing weather data: '' @ exn_str e)\<rparr>)"
    by (rule lambda_handler_boundary)
next
  assume a: "get_api_key w = (cs, Inr k) \<and> truthy k \<and>
    http_request w (request_url w (target_city w event) k) = Inr r \<and> resp_status r = 200 \<and>
    utf8_valid (map of_char (resp_data r)) \<and> json_loads w (resp_data r) = Inr data \<and>
    transform_weather_data (clock w) data = Inl e"
  then have p: "prepare_record w r = Inl e"
    by (simp add: prepare_record_transform_fails)
  from a have "lambda_handler_body w event =
      (cs @ [HttpGet (request_url w (target_city w event) k)], Inl e)"
    by (simp add: lambda_handler_body_ok_status [of w cs k event r] p)
  then show "lambda_handler w event =
      (cs @ [HttpGet (request_url w (target_city w event) k)],
       \<lparr>statusCode = 500,
        body = error_body w (''Error processing weather data: '' @ exn_str e)\<rparr>)"
    by (rule lambda_handler_boundary)
next
  assume a: "get_api_key w = (cs, Inr k) \<and> truthy k \<and>
    http_request w (request_url w (target_city w event) k) = Inr r \<and> resp_status r = 200 \<and>
    prepare_record w r = Inr json_data \<and>
    put_record w (DELIVERY_STREAM_NAME w) json_data = Inl e"
  then have "lambda_handler_body w event =
      (cs @ [HttpGet (request_url w (target_city w event) k),
             FirehosePut (DELIVERY_STREAM_NAME w) json_data], Inl e)"
    by (simp add: lambda_handler_body_ok_status [of w cs k event r])
  then show "lambda_handler w event =
      (cs @ [HttpGet (request_url w (target_city w event) k),
             FirehosePut (DELIVERY_STREAM_NAME w) json_data],
       \<lparr>statusCode = 500,
        body = error_body w (''Error processing weather data: '' @ exn_str e)\<rparr>)"
    by (rule lambda_handler_boundary)
qed

theorem malformed_observation_status_500_witness:
  "transform_weather_data 1700000123 (JObj []) = Inl (Exn KeyError (quote ''name'')) \<and>
   lambda_handler world_malformed [] =
     ([HttpGet ''https://api.openweathermap.org/data/2.5/weather?q=London&appid=k1''],
      \<lparr>statusCode = 500,
       body = ''error: Error processing weather data: '' @ quote ''name''\<rparr>)"
proof -
  have t: "transform_weather_data 1700000123 (JObj []) = Inl (Exn KeyError (quote ''name''))"
    by (simp add: transform_weather_data_def subscript_JObj key_error_def)
  have g: "get_api_key world_malformed = ([], Inr (JStr ''k1''))"
    by (simp add: get_api_key_env_only environ_get_def)
  have c: "target_city world_malformed [] = JStr ''London''"
    by (simp add: target_city_def py_or_def DEFAULT_CITY_def)
  from malformed_observation_status_500 [of "[]" 1700000123 world_malformed "[]" "[]"
      "Exn KeyError (quote ''name'')" "JStr ''k1''"
      "\<lparr>resp_status = 200, resp_data = ''{}''\<rparr>" "JObj []" "[]"] t g
  show ?thesis
    by (simp add: c request_url_def py_str_def WEATHER_API_URL_def)
qed

end
